theory Spec2Isabelle
  imports Complex_Main "HOL-Library.Word" "HOL-Library.Monad_Syntax"
begin

chapter \<open>Model of the gateway\<close>

section \<open>The request context shared by the dispatcher and the plugins\<close>

text \<open>
  The gateway is written against the gin web framework.  A request handler receives a
  \<open>*gin.Context\<close>: the request, a string-keyed store (\<open>Set\<close>/\<open>Get\<close>), the abort flag
  and the response writer.  The model keeps the calls made on the writer as a log, in
  the order the code makes them, so that "the handler writes status s and body b" is a
  statement about that log.
\<close>

text \<open>
  Error values.  The Go code builds them with \<open>fmt.Errorf\<close>; only their identity
  matters here, so each distinct message is a constructor (with its formatted arguments).
  Message texts that are Chinese in the source are given by an English gloss wherever a
  string is needed.  \<open>ErrPanic\<close> stands for a run-time panic inside a plugin.
\<close>

datatype error =
    ErrTokenMissing
  | ErrAuthCreateRequest
  | ErrAuthCall
  | ErrAuthStatus int
  | ErrAuthEmptyBody
  | ErrAuthDenied
  | ErrAuthUnknown string
  | ErrConsistency string
  | ErrOther string
  | ErrPanic

datatype jval = JStr string | JNum int | JErr error

datatype event =
    SetHeader string string
  | WriteStatus int
  | WriteString int string
  | WriteJSON int "(string \<times> jval) list"

text \<open>
  \<open>req_Header k\<close> is what \<open>GetHeader(k)\<close> returns and \<open>req_Query k\<close> what
  \<open>Query(k)\<close> returns: the empty string when the header or parameter is absent.
\<close>

record Request =
  req_Method :: string
  req_Path :: string
  req_Host :: string
  req_Header :: "string \<Rightarrow> string"
  req_Query :: "string \<Rightarrow> string"

record Context =
  request :: Request
  ClientIP :: string
  keys :: "string \<rightharpoonup> string"
  aborted :: bool
  written :: "event list"

definition GetHeader :: "Context \<Rightarrow> string \<Rightarrow> string" where
  "GetHeader ctx k = req_Header (request ctx) k"

definition Query :: "Context \<Rightarrow> string \<Rightarrow> string" where
  "Query ctx k = req_Query (request ctx) k"

definition ctx_Header :: "string \<Rightarrow> string \<Rightarrow> Context \<Rightarrow> Context" where
  "ctx_Header k v ctx = ctx\<lparr>written := written ctx @ [SetHeader k v]\<rparr>"

definition ctx_Status :: "int \<Rightarrow> Context \<Rightarrow> Context" where
  "ctx_Status code ctx = ctx\<lparr>written := written ctx @ [WriteStatus code]\<rparr>"

definition ctx_String :: "int \<Rightarrow> string \<Rightarrow> Context \<Rightarrow> Context" where
  "ctx_String code s ctx = ctx\<lparr>written := written ctx @ [WriteString code s]\<rparr>"

definition ctx_JSON :: "int \<Rightarrow> (string \<times> jval) list \<Rightarrow> Context \<Rightarrow> Context" where
  "ctx_JSON code obj ctx = ctx\<lparr>written := written ctx @ [WriteJSON code obj]\<rparr>"

definition ctx_Abort :: "Context \<Rightarrow> Context" where
  "ctx_Abort ctx = ctx\<lparr>aborted := True\<rparr>"

definition ctx_Set :: "string \<Rightarrow> string \<Rightarrow> Context \<Rightarrow> Context" where
  "ctx_Set k v ctx = ctx\<lparr>keys := (keys ctx)(k \<mapsto> v)\<rparr>"

definition GetString :: "Context \<Rightarrow> string \<Rightarrow> string" where
  "GetString ctx k = (case keys ctx k of None \<Rightarrow> [] | Some v \<Rightarrow> v)"

text \<open>
  A plugin configuration is a \<open>map[string]interface{}\<close> decoded from YAML.  The values
  the plugins inspect are booleans, integers, floats, strings and lists.  A \<open>float64\<close>
  is idealised as a real number.  A failed one-result type assertion \<open>x.(T)\<close> panics: the
  model returns \<open>None\<close> for it.
\<close>

datatype cfgval =
    CBool bool
  | CInt int
  | CFloat real
  | CStr string
  | CList "cfgval list"

type_synonym config = "string \<rightharpoonup> cfgval"

fun assert_string :: "cfgval \<Rightarrow> string option" where
  "assert_string (CStr s) = Some s"
| "assert_string _ = None"

fun assert_strings :: "cfgval list \<Rightarrow> string list option" where
  "assert_strings [] = Some []"
| "assert_strings (v # vs) =
     (case assert_string v of
        None \<Rightarrow> None
      | Some s \<Rightarrow> (case assert_strings vs of None \<Rightarrow> None | Some ss \<Rightarrow> Some (s # ss)))"

fun Join :: "string list \<Rightarrow> string \<Rightarrow> string" where
  "Join [] sep = []"
| "Join [s] sep = s"
| "Join (s # t # ss) sep = s @ sep @ Join (t # ss) sep"


text \<open>\<open>time.Second\<close> and \<open>time.Minute\<close>, in nanoseconds.\<close>

definition Second :: int where
  "Second = 1000000000"

definition Minute :: int where
  "Minute = 60 * Second"

definition HasPrefix :: "string \<Rightarrow> string \<Rightarrow> bool" where
  "HasPrefix s pre = (take (length pre) s = pre)"

definition TrimPrefix :: "string \<Rightarrow> string \<Rightarrow> string" where
  "TrimPrefix s pre = (if HasPrefix s pre then drop (length pre) s else s)"


section \<open>CORS plugin (internal/plugin/plugins/cors/cors.go)\<close>

definition getAllowedOrigins :: "config \<Rightarrow> string list option" where
  "getAllowedOrigins cfg =
     (case cfg ''allowed_origins'' of
        Some (CList origins) \<Rightarrow> assert_strings origins
      | _ \<Rightarrow> Some [''*''])"

definition getAllowedMethods :: "config \<Rightarrow> string option" where
  "getAllowedMethods cfg =
     (case cfg ''allowed_methods'' of
        Some (CList methods) \<Rightarrow> map_option (\<lambda>r. Join r '', '') (assert_strings methods)
      | _ \<Rightarrow> Some ''GET, POST, PUT, DELETE, OPTIONS'')"

definition getAllowedHeaders :: "config \<Rightarrow> string option" where
  "getAllowedHeaders cfg =
     (case cfg ''allowed_headers'' of
        Some (CList hs) \<Rightarrow> map_option (\<lambda>r. Join r '', '') (assert_strings hs)
      | _ \<Rightarrow> Some ''*'')"

definition getExposedHeaders :: "config \<Rightarrow> string option" where
  "getExposedHeaders cfg =
     (case cfg ''exposed_headers'' of
        Some (CList hs) \<Rightarrow> map_option (\<lambda>r. Join r '', '') (assert_strings hs)
      | _ \<Rightarrow> Some ''Content-Length'')"

definition getMaxAge :: "config \<Rightarrow> string" where
  "getMaxAge cfg =
     (case cfg ''max_age'' of Some (CStr maxAge) \<Rightarrow> maxAge | _ \<Rightarrow> ''43200'')"

definition isOriginAllowed :: "config \<Rightarrow> string \<Rightarrow> bool option" where
  "isOriginAllowed cfg origin =
     (if origin = [] then Some False
      else case getAllowedOrigins cfg of
        None \<Rightarrow> None
      | Some allowedOrigins \<Rightarrow>
          if length allowedOrigins = 0 then Some False
          else if length allowedOrigins = 1 \<and> hd allowedOrigins = ''*'' then Some True
          else Some (origin \<in> set allowedOrigins))"

definition handlePreflight :: "config \<Rightarrow> Context \<Rightarrow> Context option" where
  "handlePreflight cfg ctx =
     (let origin = GetHeader ctx ''Origin'' in
      do {
        ok \<leftarrow> isOriginAllowed cfg origin;
        if \<not> ok then Some (ctx_Status 403 ctx)
        else do {
          ms \<leftarrow> getAllowedMethods cfg;
          hs \<leftarrow> getAllowedHeaders cfg;
          es \<leftarrow> getExposedHeaders cfg;
          Some (ctx_Status 200
                 (ctx_Header ''Access-Control-Max-Age'' (getMaxAge cfg)
                 (ctx_Header ''Access-Control-Expose-Headers'' es
                 (ctx_Header ''Access-Control-Allow-Headers'' hs
                 (ctx_Header ''Access-Control-Allow-Methods'' ms
                 (ctx_Header ''Access-Control-Allow-Origin'' origin ctx))))))
        }
      })"

definition handleActualRequest :: "config \<Rightarrow> Context \<Rightarrow> Context option" where
  "handleActualRequest cfg ctx =
     (let origin = GetHeader ctx ''Origin'' in
      if origin = [] then Some ctx
      else do {
        ok \<leftarrow> isOriginAllowed cfg origin;
        if ok then do {
          es \<leftarrow> getExposedHeaders cfg;
          Some (ctx_Header ''Access-Control-Expose-Headers'' es
                 (ctx_Header ''Access-Control-Allow-Origin'' origin ctx))
        }
        else Some ctx
      })"

text \<open>
  \<open>CorsPlugin.Execute\<close> always returns a nil error; \<open>None\<close> is a panic of a type
  assertion on a list element.
\<close>

definition cors_Execute :: "config \<Rightarrow> Context \<Rightarrow> Context option" where
  "cors_Execute cfg ctx =
     (if req_Method (request ctx) = ''OPTIONS''
      then map_option ctx_Abort (handlePreflight cfg ctx)
      else handleActualRequest cfg ctx)"

definition no_origins_list :: "config \<Rightarrow> bool" where
  "no_origins_list cfg = (case cfg ''allowed_origins'' of Some (CList origins) \<Rightarrow> False | _ \<Rightarrow> True)"


text \<open>The same configuration with the origin list written out as \<open>["*"]\<close>.\<close>

definition star_cfg :: "config \<Rightarrow> config" where
  "star_cfg cfg = cfg(''allowed_origins'' \<mapsto> CList [CStr ''*''])"

definition ex_request :: "string \<Rightarrow> string \<Rightarrow> (string \<Rightarrow> string) \<Rightarrow> Request" where
  "ex_request m p hs = \<lparr>req_Method = m, req_Path = p, req_Host = ''gw.example'', req_Header = hs, req_Query = (\<lambda>k. [])\<rparr>"

definition ex_ctx :: "Request \<Rightarrow> Context" where
  "ex_ctx r = \<lparr>request = r, ClientIP = ''10.0.0.1'', keys = Map.empty, aborted = False, written = []\<rparr>"

definition ex_origin_hdr :: "string \<Rightarrow> string" where
  "ex_origin_hdr k = (if k = ''Origin'' then ''http://a.example'' else [])"


section \<open>Plugins and the plugin chain (internal/plugin/core, internal/plugin/chain)\<close>

text \<open>
  A plugin is an object with a name, an order and \<open>Execute(ctx) error\<close>.  Plugins keep
  state of their own between requests (token buckets, breakers) and read the clock; \<open>'s\<close>
  is that state together with the environment, threaded through every call.  \<open>Execute\<close>
  returns the error (\<open>None\<close> for nil), the context and the state it leaves.
\<close>

record 's Plugin =
  Name :: string
  Order :: int
  Execute :: "'s \<Rightarrow> Context \<Rightarrow> error option \<times> Context \<times> 's"

text \<open>
  \<open>PluginCacheIface\<close>: \<open>Get\<close> returns the stored map of context keys when the key is
  present (and not expired), \<open>Set\<close> stores one.  \<open>'c\<close> is the state of the cache.
\<close>

record 'c PluginCacheIface =
  Get :: "'c \<Rightarrow> string \<Rightarrow> (string \<times> string) list option"
  Set :: "string \<Rightarrow> (string \<times> string) list \<Rightarrow> 'c \<Rightarrow> 'c"

record ('s, 'c) Chain =
  plugins :: "'s Plugin list"
  cache :: "'c PluginCacheIface option"
  genKey :: "(Context \<Rightarrow> string \<Rightarrow> string) option"

text \<open>
  The result of running a chain: the error returned, the context, the plugins' state,
  the cache, and the names of the plugins whose \<open>Execute\<close> was called, in call order
  (a ghost value: the Go code does not record it).
\<close>

type_synonym ('s, 'c) chain_result = "error option \<times> Context \<times> 's \<times> 'c \<times> string list"

definition cache_Get ::
  "'c PluginCacheIface option \<Rightarrow> (Context \<Rightarrow> string \<Rightarrow> string) option \<Rightarrow> Context \<Rightarrow> string \<Rightarrow> 'c
     \<Rightarrow> (string \<times> string) list option" where
  "cache_Get ch gk ctx name cst =
     (case (ch, gk) of (Some c, Some g) \<Rightarrow> Get c cst (g ctx name) | _ \<Rightarrow> None)"

definition cache_Set ::
  "'c PluginCacheIface option \<Rightarrow> (Context \<Rightarrow> string \<Rightarrow> string) option \<Rightarrow> Context \<Rightarrow> Context \<Rightarrow> string
     \<Rightarrow> 'c \<Rightarrow> 'c" where
  "cache_Set ch gk ctx_before ctx_after name cst =
     (case (ch, gk) of
        (Some c, Some g) \<Rightarrow>
          (let resultKey = ''plugin_result_'' @ name in
           case keys ctx_after resultKey of
             Some val \<Rightarrow> Set c (g ctx_before name) [(resultKey, val)] cst
           | None \<Rightarrow> cst)
      | _ \<Rightarrow> cst)"

fun run_plugins ::
  "'c PluginCacheIface option \<Rightarrow> (Context \<Rightarrow> string \<Rightarrow> string) option \<Rightarrow> 's Plugin list
     \<Rightarrow> Context \<Rightarrow> 's \<Rightarrow> 'c \<Rightarrow> string list \<Rightarrow> ('s, 'c) chain_result" where
  "run_plugins ch gk [] ctx s cst tr = (None, ctx, s, cst, tr)"
| "run_plugins ch gk (p # ps) ctx s cst tr =
     (case cache_Get ch gk ctx (Name p) cst of
        Some dataMap \<Rightarrow>
          run_plugins ch gk ps (fold (\<lambda>(k, v). ctx_Set k v) dataMap ctx) s cst tr
      | None \<Rightarrow>
          (case Execute p s ctx of
             (Some err, ctx', s') \<Rightarrow> (Some err, ctx', s', cst, tr @ [Name p])
           | (None, ctx', s') \<Rightarrow>
               run_plugins ch gk ps ctx' s' (cache_Set ch gk ctx ctx' (Name p) cst)
                 (tr @ [Name p])))"

definition Chain_Execute :: "('s, 'c) Chain \<Rightarrow> Context \<Rightarrow> 's \<Rightarrow> 'c \<Rightarrow> ('s, 'c) chain_result" where
  "Chain_Execute c ctx s cst = run_plugins (cache c) (genKey c) (plugins c) ctx s cst []"

text \<open>\<open>plugin.Manager.Execute\<close>: run the chain registered for the route, if there is one.\<close>

definition Manager_Execute ::
  "(string \<rightharpoonup> ('s, 'c) Chain) \<Rightarrow> Context \<Rightarrow> string \<Rightarrow> 's \<Rightarrow> 'c \<Rightarrow> ('s, 'c) chain_result" where
  "Manager_Execute routeChains ctx routeName s cst =
     (case routeChains routeName of
        Some chain \<Rightarrow> Chain_Execute chain ctx s cst
      | None \<Rightarrow> (None, ctx, s, cst, []))"


section \<open>The dispatcher (main.go, registerRoutes)\<close>

record RouteMatch =
  cm_Type :: string
  cm_Path :: string
  cm_Priority :: int
  cm_Host :: string
  cm_Method :: string
  cm_Headers :: "(string \<times> string) list"
  cm_QueryParams :: "(string \<times> string) list"

record ResponseConfig =
  Status :: int
  Content :: string
  ContentType :: string

record TargetConfig =
  URL :: string
  Timeout :: int
  Retries :: int

record RouteConfig =
  rc_Name :: string
  rc_Match :: RouteMatch
  rc_Target :: TargetConfig
  rc_Plugins :: "string list"
  rc_Response :: "ResponseConfig option"

definition matchRoute :: "string \<Rightarrow> RouteMatch \<Rightarrow> bool" where
  "matchRoute p m =
     (if cm_Type m = ''exact'' then p = cm_Path m
      else if cm_Type m = ''prefix'' then HasPrefix p (cm_Path m)
      else p = cm_Path m)"

text \<open>
  What the middleware of \<open>registerRoutes\<close> leaves behind: the context, the plugins'
  state and cache, the plugins that ran, the call made to the reverse proxy (target URL
  and upstream path) if any, and whether the request was passed on with \<open>c.Next()\<close>
  (to the NoRoute handler, which answers 404).
\<close>

record ('s, 'c) Handled =
  h_ctx :: Context
  h_state :: 's
  h_cache :: 'c
  h_executed :: "string list"
  h_upstream :: "(string \<times> string) option"
  h_next :: bool

definition internal_response :: "RouteConfig \<Rightarrow> Context \<Rightarrow> Context" where
  "internal_response matchedRoute ctx =
     ctx_Abort
       (case rc_Response matchedRoute of
          Some resp \<Rightarrow>
            ctx_String (Status resp) (Content resp)
              (if ContentType resp \<noteq> [] then ctx_Header ''Content-Type'' (ContentType resp) ctx
               else ctx_Header ''Content-Type'' ''text/plain'' ctx)
        | None \<Rightarrow> ctx_String 200 ''gateway-go running'' ctx)"

definition proxyPath :: "string \<Rightarrow> RouteConfig \<Rightarrow> string" where
  "proxyPath p matchedRoute =
     (if cm_Type (rc_Match matchedRoute) = ''prefix'' \<and> cm_Path (rc_Match matchedRoute) \<noteq> ''/''
      then (let pp = TrimPrefix p (cm_Path (rc_Match matchedRoute))
            in if \<not> HasPrefix pp ''/'' then ''/'' @ pp else pp)
      else p)"

text \<open>
  \<open>routes\<close> is the slice after \<open>sort.Slice\<close> by descending priority; \<open>url_ok\<close> tells
  whether \<open>url.Parse\<close> (standard library) accepts a target URL.
\<close>

definition handle_request ::
  "(string \<Rightarrow> bool) \<Rightarrow> RouteConfig list \<Rightarrow> (string \<rightharpoonup> ('s, 'c) Chain) \<Rightarrow> Context \<Rightarrow> 's \<Rightarrow> 'c
     \<Rightarrow> ('s, 'c) Handled" where
  "handle_request url_ok routes routeChains ctx s cst =
     (let p = req_Path (request ctx) in
      case find (\<lambda>route. matchRoute p (rc_Match route)) routes of
        None \<Rightarrow>
          \<lparr>h_ctx = ctx, h_state = s, h_cache = cst, h_executed = [], h_upstream = None,
            h_next = True\<rparr>
      | Some matchedRoute \<Rightarrow>
          (case Manager_Execute routeChains
                  (ctx_Set ''target'' (URL (rc_Target matchedRoute)) ctx)
                  (rc_Name matchedRoute) s cst of
             (Some err, ctx', s', cst', tr) \<Rightarrow>
               \<lparr>h_ctx = ctx_Abort (ctx_JSON 500 [(''error'', JErr err)] ctx'), h_state = s',
                 h_cache = cst', h_executed = tr, h_upstream = None, h_next = False\<rparr>
           | (None, ctx', s', cst', tr) \<Rightarrow>
               if aborted ctx' then
                 \<lparr>h_ctx = ctx', h_state = s', h_cache = cst', h_executed = tr,
                   h_upstream = None, h_next = False\<rparr>
               else if HasPrefix (URL (rc_Target matchedRoute)) ''internal://'' then
                 \<lparr>h_ctx = internal_response matchedRoute ctx', h_state = s', h_cache = cst',
                   h_executed = tr, h_upstream = None, h_next = False\<rparr>
               else if \<not> url_ok (URL (rc_Target matchedRoute)) then
                 \<lparr>h_ctx = ctx_Abort (ctx_JSON 500
                            [(''error'', JErr (ErrOther (URL (rc_Target matchedRoute))))] ctx'),
                   h_state = s', h_cache = cst', h_executed = tr, h_upstream = None,
                   h_next = False\<rparr>
               else
                 \<lparr>h_ctx = ctx_Abort ctx', h_state = s', h_cache = cst', h_executed = tr,
                   h_upstream = Some (URL (rc_Target matchedRoute), proxyPath p matchedRoute),
                   h_next = False\<rparr>))"


section \<open>Rate limiter plugin (internal/plugin/plugins/ratelimit)\<close>

text \<open>
  Times are \<open>UnixNano\<close> values.  \<open>rate\<close> is a \<open>float64\<close>, idealised as a real number;
  the conversion \<open>int64(x)\<close> of a float truncates towards zero.
\<close>

record TokenBucket =
  rate :: real
  capacity :: int
  tokens :: int
  lastRefill :: int

record RateLimitPlugin =
  rl_config :: config
  buckets :: "string \<rightharpoonup> TokenBucket"

definition int64_of_float :: "real \<Rightarrow> int" where
  "int64_of_float x = (if 0 \<le> x then \<lfloor>x\<rfloor> else \<lceil>x\<rceil>)"

definition allow :: "int \<Rightarrow> TokenBucket \<Rightarrow> bool \<times> TokenBucket" where
  "allow now b =
     (let elapsed = real_of_int (now - lastRefill b) / real_of_int Second;
          tokensToAdd = int64_of_float (elapsed * rate b);
          b1 = (if tokensToAdd > 0
                then b\<lparr>tokens := min (capacity b) (tokens b + tokensToAdd), lastRefill := now\<rparr>
                else b)
      in if tokens b1 > 0 then (True, b1\<lparr>tokens := tokens b1 - 1\<rparr>) else (False, b1))"

definition getLimitKey :: "RateLimitPlugin \<Rightarrow> Context \<Rightarrow> string" where
  "getLimitKey p c =
     (case rl_config p ''ip_based'' of
        Some (CBool True) \<Rightarrow> ClientIP c
      | _ \<Rightarrow> req_Path (request c))"

definition newBucket :: "config \<Rightarrow> int \<Rightarrow> TokenBucket" where
  "newBucket cfg now =
     (let requestsPerSecond = (case cfg ''requests_per_second'' of Some (CFloat rps) \<Rightarrow> rps | _ \<Rightarrow> 10);
          burst = (case cfg ''burst'' of Some (CInt b) \<Rightarrow> b | _ \<Rightarrow> 20)
      in \<lparr>rate = requestsPerSecond, capacity = burst, tokens = burst, lastRefill = now\<rparr>)"

definition getBucket :: "int \<Rightarrow> string \<Rightarrow> RateLimitPlugin \<Rightarrow> TokenBucket \<times> RateLimitPlugin" where
  "getBucket now key p =
     (case buckets p key of
        Some bucket \<Rightarrow> (bucket, p)
      | None \<Rightarrow>
          (let bucket = newBucket (rl_config p) now
           in (bucket, p\<lparr>buckets := (buckets p)(key \<mapsto> bucket)\<rparr>)))"

text \<open>
  One request for a key: \<open>getBucket\<close> followed by \<open>allow\<close> on the bucket (a pointer into
  the map, so the map sees the update).  Both read the clock; the model gives them the
  same instant.
\<close>

definition rl_request :: "int \<Rightarrow> string \<Rightarrow> RateLimitPlugin \<Rightarrow> bool \<times> RateLimitPlugin" where
  "rl_request now key p =
     (case getBucket now key p of
        (bucket, p1) \<Rightarrow>
          (case allow now bucket of
             (ok, bucket') \<Rightarrow> (ok, p1\<lparr>buckets := (buckets p1)(key \<mapsto> bucket')\<rparr>)))"

definition rl_Execute :: "int \<Rightarrow> RateLimitPlugin \<Rightarrow> Context \<Rightarrow> error option \<times> Context \<times> RateLimitPlugin" where
  "rl_Execute now p ctx =
     (case rl_request now (getLimitKey p ctx) p of
        (ok, p') \<Rightarrow>
          if \<not> ok then (None, ctx_Abort (ctx_JSON 429 [(''error'', JStr ''too many requests'')] ctx), p')
          else (None, ctx, p'))"

definition cleanupBuckets :: "int \<Rightarrow> RateLimitPlugin \<Rightarrow> RateLimitPlugin" where
  "cleanupBuckets now p =
     p\<lparr>buckets := (\<lambda>key. case buckets p key of
                            None \<Rightarrow> None
                          | Some bucket \<Rightarrow>
                              if now - lastRefill bucket > 5 * Minute then None else Some bucket)\<rparr>"

text \<open>
  A history of one limiter: requests for a key and runs of the janitor, each at its
  time.  \<open>admitted\<close> lists the times of the requests that were allowed.
\<close>

datatype rl_op = Request string int | Cleanup int

fun admitted :: "string \<Rightarrow> rl_op list \<Rightarrow> RateLimitPlugin \<Rightarrow> int list" where
  "admitted key [] p = []"
| "admitted key (Request k now # ops) p =
     (case rl_request now k p of
        (ok, p') \<Rightarrow> (if ok \<and> k = key then [now] else []) @ admitted key ops p')"
| "admitted key (Cleanup now # ops) p = admitted key ops (cleanupBuckets now p)"

definition in_window :: "int \<Rightarrow> int list \<Rightarrow> nat" where
  "in_window start ts = length (filter (\<lambda>t. start \<le> t \<and> t \<le> start + Second) ts)"

definition ex_limiter :: RateLimitPlugin where
  "ex_limiter = \<lparr>rl_config = [''requests_per_second'' \<mapsto> CFloat 0, ''burst'' \<mapsto> CInt 2],
                 buckets = Map.empty\<rparr>"

definition ex_history :: "rl_op list" where
  "ex_history =
     [Request ''/api'' 0,
      Request ''/api'' 300200000000,
      Cleanup 300500000000,
      Request ''/api'' 300600000000,
      Request ''/api'' 300700000000]"


section \<open>Example configuration: a route with the rate limiter and CORS\<close>

definition rate_limit_plugin :: "int \<Rightarrow> RateLimitPlugin Plugin" where
  "rate_limit_plugin now = \<lparr>Name = ''rate_limit'', Order = 10, Execute = rl_Execute now\<rparr>"

definition cors_plugin :: "config \<Rightarrow> 's Plugin" where
  "cors_plugin cfg =
     \<lparr>Name = ''cors'', Order = 20,
       Execute = (\<lambda>s ctx. case cors_Execute cfg ctx of
                              Some ctx' \<Rightarrow> (None, ctx', s)
                            | None \<Rightarrow> (Some ErrPanic, ctx, s))\<rparr>"

definition ex_api_route :: RouteConfig where
  "ex_api_route =
     \<lparr>rc_Name = ''api'',
       rc_Match = \<lparr>cm_Type = ''prefix'', cm_Path = ''/api'', cm_Priority = 90, cm_Host = [],
                    cm_Method = [], cm_Headers = [], cm_QueryParams = []\<rparr>,
       rc_Target = \<lparr>URL = ''http://u:80'', Timeout = 1000, Retries = 0\<rparr>,
       rc_Plugins = [''rate_limit'', ''cors''],
       rc_Response = None\<rparr>"

definition ex_api_chains :: "int \<Rightarrow> string \<rightharpoonup> (RateLimitPlugin, unit) Chain" where
  "ex_api_chains now =
     [''api'' \<mapsto> \<lparr>plugins = [rate_limit_plugin now, cors_plugin Map.empty],
                     cache = None, genKey = None\<rparr>]"

definition ex_limiter1 :: RateLimitPlugin where
  "ex_limiter1 = \<lparr>rl_config = [''requests_per_second'' \<mapsto> CFloat 1, ''burst'' \<mapsto> CInt 1],
                  buckets = Map.empty\<rparr>"

definition ex_api_ctx :: Context where
  "ex_api_ctx = ex_ctx (ex_request ''GET'' ''/api/x'' ex_origin_hdr)"

text \<open>Two back-to-back requests: the state left by the first is the state of the second.\<close>

definition ex_second_request :: "(RateLimitPlugin, unit) Handled" where
  "ex_second_request =
     handle_request (\<lambda>u. True) [ex_api_route] (ex_api_chains 5) ex_api_ctx
       (h_state (handle_request (\<lambda>u. True) [ex_api_route] (ex_api_chains 0) ex_api_ctx
                   ex_limiter1 ()))
       ()"

definition ex_internal_route :: RouteConfig where
  "ex_internal_route =
     \<lparr>rc_Name = ''default'',
       rc_Match = \<lparr>cm_Type = ''prefix'', cm_Path = ''/'', cm_Priority = 0, cm_Host = [],
                    cm_Method = [], cm_Headers = [], cm_QueryParams = []\<rparr>,
       rc_Target = \<lparr>URL = ''internal://default'', Timeout = 0, Retries = 0\<rparr>,
       rc_Plugins = [],
       rc_Response = None\<rparr>"

definition ex_health_route :: RouteConfig where
  "ex_health_route =
     \<lparr>rc_Name = ''health'',
       rc_Match = \<lparr>cm_Type = ''exact'', cm_Path = ''/health'', cm_Priority = 100, cm_Host = [],
                    cm_Method = [], cm_Headers = [], cm_QueryParams = []\<rparr>,
       rc_Target = \<lparr>URL = ''internal://default'', Timeout = 0, Retries = 0\<rparr>,
       rc_Plugins = [],
       rc_Response = Some \<lparr>Status = 200, Content = ''ok'', ContentType = ''text/plain''\<rparr>\<rparr>"

definition no_chains :: "string \<rightharpoonup> (unit, unit) Chain" where
  "no_chains = Map.empty"


section \<open>Interface-auth plugin (internal/plugin/plugins/interface_auth)\<close>

text \<open>
  \<open>strings.TrimSpace\<close> removes leading and trailing white space as Unicode defines it.
  A Go string is a byte sequence read as UTF-8, so the white-space characters are the six
  ASCII ones and the UTF-8 encodings of U+0085, U+00A0, U+1680, U+2000..U+200A, U+2028,
  U+2029, U+202F, U+205F and U+3000.
\<close>

definition space_encodings :: "string list" where
  "space_encodings =
     [[CHR 0x09], [CHR 0x0A], [CHR 0x0B], [CHR 0x0C], [CHR 0x0D], [CHR 0x20],
      [CHR 0xC2, CHR 0x85], [CHR 0xC2, CHR 0xA0],
      [CHR 0xE1, CHR 0x9A, CHR 0x80],
      [CHR 0xE2, CHR 0x80, CHR 0x80], [CHR 0xE2, CHR 0x80, CHR 0x81],
      [CHR 0xE2, CHR 0x80, CHR 0x82], [CHR 0xE2, CHR 0x80, CHR 0x83],
      [CHR 0xE2, CHR 0x80, CHR 0x84], [CHR 0xE2, CHR 0x80, CHR 0x85],
      [CHR 0xE2, CHR 0x80, CHR 0x86], [CHR 0xE2, CHR 0x80, CHR 0x87],
      [CHR 0xE2, CHR 0x80, CHR 0x88], [CHR 0xE2, CHR 0x80, CHR 0x89],
      [CHR 0xE2, CHR 0x80, CHR 0x8A],
      [CHR 0xE2, CHR 0x80, CHR 0xA8], [CHR 0xE2, CHR 0x80, CHR 0xA9],
      [CHR 0xE2, CHR 0x80, CHR 0xAF], [CHR 0xE2, CHR 0x81, CHR 0x9F],
      [CHR 0xE3, CHR 0x80, CHR 0x80]]"

text \<open>The number of bytes of the white-space character a string starts with (0: none).\<close>

definition space_width :: "string list \<Rightarrow> string \<Rightarrow> nat" where
  "space_width encs s = (case find (HasPrefix s) encs of None \<Rightarrow> 0 | Some e \<Rightarrow> length e)"

function trim_left :: "string list \<Rightarrow> string \<Rightarrow> string" where
  "trim_left encs s =
     (if space_width encs s = 0 \<or> s = [] then s
      else trim_left encs (drop (space_width encs s) s))"
  by pat_completeness auto
termination
  by (relation "measure (\<lambda>(encs, s). length s)") auto

definition TrimSpace :: "string \<Rightarrow> string" where
  "TrimSpace s =
     rev (trim_left (map rev space_encodings) (rev (trim_left space_encodings s)))"

text \<open>
  The plugin after \<open>Init\<close>: the exact white-list entries, the white-list patterns with a
  \<open>*\<close> (compiled to regular expressions by the standard library) and the auth service's
  address.
\<close>

record AuthPlugin =
  whiteListExact :: "string list"
  whiteListRegex :: "string list"
  consumers_Host :: string
  consumers_AuthAPI :: string

text \<open>
  What the HTTP client returns for the GET to the auth service: \<open>http.NewRequest\<close>
  fails, \<open>Do\<close> fails, or a response arrives with a status, a body, and the number of
  bytes the body's reader hands out at its first \<open>Read\<close> (the transport decides it).
\<close>

datatype http_result =
    NewRequestError
  | DoError
  | Response int string nat

definition isWhiteListed :: "(string \<Rightarrow> string \<Rightarrow> bool) \<Rightarrow> AuthPlugin \<Rightarrow> string \<Rightarrow> bool" where
  "isWhiteListed MatchString p pth =
     (if pth \<in> set (whiteListExact p) then True
      else list_ex (\<lambda>regex. MatchString regex pth) (whiteListRegex p))"

definition getTokenFromAuthorizationHeader :: "Context \<Rightarrow> string" where
  "getTokenFromAuthorizationHeader ctx =
     (let authHeader = GetHeader ctx ''Authorization'' in
      if authHeader = [] then []
      else if HasPrefix authHeader ''Bearer '' then TrimPrefix authHeader ''Bearer ''
      else [])"

definition ErrorResponse :: "int \<Rightarrow> string \<Rightarrow> (string \<times> jval) list" where
  "ErrorResponse code msg = [(''code'', JNum code), (''message'', JStr msg)]"

definition ErrTokenMissingOrInvalid :: "(string \<times> jval) list" where
  "ErrTokenMissingOrInvalid = ErrorResponse 401 ''Token missing or invalid''"

definition ErrForbiddenAccessDenied :: "(string \<times> jval) list" where
  "ErrForbiddenAccessDenied = ErrorResponse 403 ''Forbidden: Access denied''"

definition ErrAuthServiceCallFailed :: "(string \<times> jval) list" where
  "ErrAuthServiceCallFailed = ErrorResponse 500 ''Auth service call failed''"

definition ErrNoResponseBody :: "(string \<times> jval) list" where
  "ErrNoResponseBody = ErrorResponse 500 ''Internal error: no response body''"

definition ErrUnknownResponseType :: "(string \<times> jval) list" where
  "ErrUnknownResponseType = ErrorResponse 401 ''response Unknown Type''"

definition authURL :: "AuthPlugin \<Rightarrow> string \<Rightarrow> string" where
  "authURL p token = ''http://'' @ consumers_Host p @ consumers_AuthAPI p @ ''/'' @ token"

text \<open>The bytes the single \<open>resp.Body.Read(body)\<close> into the 1024-byte buffer returns.\<close>

definition first_read :: "string \<Rightarrow> nat \<Rightarrow> string" where
  "first_read body n = take (min 1024 n) body"

definition callAuthService ::
  "(string \<Rightarrow> http_result) \<Rightarrow> AuthPlugin \<Rightarrow> Context \<Rightarrow> string \<Rightarrow> error option \<times> Context" where
  "callAuthService http p ctx token =
     (case http (authURL p token) of
        NewRequestError \<Rightarrow>
          (Some ErrAuthCreateRequest, ctx_Abort (ctx_JSON 500 ErrAuthServiceCallFailed ctx))
      | DoError \<Rightarrow>
          (Some ErrAuthCall, ctx_Abort (ctx_JSON 500 ErrAuthServiceCallFailed ctx))
      | Response StatusCode Body n \<Rightarrow>
          if StatusCode \<noteq> 200 then
            (Some (ErrAuthStatus StatusCode),
             ctx_Abort (ctx_JSON StatusCode
                          (ErrorResponse StatusCode ''Unauthorized: Invalid response'') ctx))
          else
            (let body = first_read Body n in
             if length body = 0 then
               (Some ErrAuthEmptyBody, ctx_Abort (ctx_JSON 500 ErrNoResponseBody ctx))
             else
               (let responseBody = TrimSpace body in
                if responseBody = ''true'' then
                  (Some ErrAuthDenied, ctx_Abort (ctx_JSON 403 ErrForbiddenAccessDenied ctx))
                else if responseBody = ''false'' then (None, ctx)
                else
                  (Some (ErrAuthUnknown responseBody),
                   ctx_Abort (ctx_JSON 401 ErrUnknownResponseType ctx)))))"

definition ia_Execute ::
  "(string \<Rightarrow> string \<Rightarrow> bool) \<Rightarrow> (string \<Rightarrow> http_result) \<Rightarrow> AuthPlugin \<Rightarrow> Context
     \<Rightarrow> error option \<times> Context" where
  "ia_Execute MatchString http p ctx =
     (if isWhiteListed MatchString p (req_Path (request ctx)) then
        (None, ctx_Set ''plugin_result_interface_auth'' ''whitelist'' ctx)
      else
        (let token = getTokenFromAuthorizationHeader ctx in
         if token = [] then
           (Some ErrTokenMissing, ctx_Abort (ctx_JSON 401 ErrTokenMissingOrInvalid ctx))
         else
           (case callAuthService http p ctx token of
              (Some err, ctx') \<Rightarrow> (Some err, ctx')
            | (None, ctx') \<Rightarrow>
                (None, ctx_Set ''plugin_result_interface_auth'' ''success'' ctx'))))"

definition interface_auth_plugin ::
  "(string \<Rightarrow> string \<Rightarrow> bool) \<Rightarrow> (string \<Rightarrow> http_result) \<Rightarrow> AuthPlugin \<Rightarrow> 's Plugin" where
  "interface_auth_plugin MatchString http p =
     \<lparr>Name = ''interface_auth'', Order = 900,
       Execute = (\<lambda>s ctx. case ia_Execute MatchString http p ctx of (e, ctx') \<Rightarrow> (e, ctx', s))\<rparr>"

text \<open>
  The status line gin sends for a log of writer calls: a status can be changed until the
  first body write, later ones are ignored (gin's \<open>responseWriter.WriteHeader\<close>); 200 when
  no status was set.
\<close>

fun status_sent :: "int \<Rightarrow> event list \<Rightarrow> int" where
  "status_sent st [] = st"
| "status_sent st (SetHeader k v # es) = status_sent st es"
| "status_sent st (WriteStatus code # es) = status_sent (if code > 0 then code else st) es"
| "status_sent st (WriteString code s # es) = (if code > 0 then code else st)"
| "status_sent st (WriteJSON code obj # es) = (if code > 0 then code else st)"

definition ex_auth :: AuthPlugin where
  "ex_auth = \<lparr>whiteListExact = [''/info''], whiteListRegex = [],
              consumers_Host = ''auth.example:8080'', consumers_AuthAPI = ''/unauthorized''\<rparr>"

definition ex_bearer_hdr :: "string \<Rightarrow> string" where
  "ex_bearer_hdr k = (if k = ''Authorization'' then ''Bearer T'' else [])"

definition ex_other_ctx :: Context where
  "ex_other_ctx = ex_ctx (ex_request ''GET'' ''/other'' ex_bearer_hdr)"


definition executed_of :: "('s, 'c) chain_result \<Rightarrow> string list" where
  "executed_of r = (case r of (err, ctx, s, cst, tr) \<Rightarrow> tr)"

definition ex_auth_route :: RouteConfig where
  "ex_auth_route =
     \<lparr>rc_Name = ''other'',
       rc_Match = \<lparr>cm_Type = ''prefix'', cm_Path = ''/other'', cm_Priority = 50, cm_Host = [],
                    cm_Method = [], cm_Headers = [], cm_QueryParams = []\<rparr>,
       rc_Target = \<lparr>URL = ''http://u:80'', Timeout = 1000, Retries = 0\<rparr>,
       rc_Plugins = [''interface_auth''],
       rc_Response = None\<rparr>"

definition ex_auth_chains :: "(string \<Rightarrow> http_result) \<Rightarrow> string \<rightharpoonup> (unit, unit) Chain" where
  "ex_auth_chains http =
     [''other'' \<mapsto> \<lparr>plugins = [interface_auth_plugin (\<lambda>regex pth. False) http ex_auth],
                       cache = None, genKey = None\<rparr>]"

definition ex_no_token_ctx :: Context where
  "ex_no_token_ctx = ex_ctx (ex_request ''GET'' ''/other'' ex_origin_hdr)"


section \<open>Circuit breaker plugin (internal/plugin/plugins/circuitbreaker)\<close>
































section \<open>Consistency plugin (internal/plugin/plugins/consistency)\<close>





















section \<open>Configuration: validation and reload (internal/config)\<close>

record ServerConfig =
  Port :: int
  Mode :: string
  ReadTimeout :: int
  WriteTimeout :: int
  MaxHeaderBytes :: int
  GracefulShutdownTimeout :: int

record LogConfig =
  Level :: string
  Format :: string
  Output :: string
  MaxSize :: int
  MaxAge :: int
  MaxBackups :: int
  Compress :: bool

record PluginConfig =
  pc_Name :: string
  pc_Enabled :: bool
  pc_Order :: int
  pc_Config :: config

record PluginsConfig =
  Available :: "PluginConfig list"
  pl_Routes :: "(string \<times> PluginConfig list) list"

record Config =
  Server :: ServerConfig
  Log :: LogConfig
  Plugins :: PluginsConfig
  Routes :: "RouteConfig list"

text \<open>
  The validators return the first error they find (\<open>None\<close> for nil).  The errors carry
  an English gloss of the message.
\<close>

definition validateServerConfig :: "ServerConfig \<Rightarrow> error option" where
  "validateServerConfig c =
     (if Port c \<le> 0 \<or> Port c > 65535 then Some (ErrOther ''invalid port'')
      else if Mode c \<noteq> ''debug'' \<and> Mode c \<noteq> ''release'' then Some (ErrOther ''invalid mode'')
      else if ReadTimeout c \<le> 0 then Some (ErrOther ''invalid read timeout'')
      else if WriteTimeout c \<le> 0 then Some (ErrOther ''invalid write timeout'')
      else if MaxHeaderBytes c \<le> 0 then Some (ErrOther ''invalid max header bytes'')
      else if GracefulShutdownTimeout c \<le> 0
        then Some (ErrOther ''invalid graceful shutdown timeout'')
      else None)"

definition validateLogConfig :: "LogConfig \<Rightarrow> error option" where
  "validateLogConfig c =
     (if Level c = [] then Some (ErrOther ''empty log level'')
      else if Level c \<notin> set [''debug'', ''info'', ''warn'', ''error'']
        then Some (ErrOther ''invalid log level'')
      else if Format c = [] then Some (ErrOther ''empty log format'')
      else if Format c \<notin> set [''json'', ''text''] then Some (ErrOther ''invalid log format'')
      else if Output c = [] then Some (ErrOther ''empty log output'')
      else if MaxSize c \<le> 0 then Some (ErrOther ''invalid max size'')
      else if MaxAge c \<le> 0 then Some (ErrOther ''invalid max age'')
      else if MaxBackups c \<le> 0 then Some (ErrOther ''invalid max backups'')
      else None)"

definition validatePluginConfig :: "PluginConfig \<Rightarrow> error option" where
  "validatePluginConfig c =
     (if pc_Name c = [] then Some (ErrOther ''empty plugin name'')
      else if pc_Order c < 0 then Some (ErrOther ''invalid plugin order'')
      else None)"

text \<open>The first error of a validator over a list, in list order.\<close>

fun first_error :: "('a \<Rightarrow> error option) \<Rightarrow> 'a list \<Rightarrow> error option" where
  "first_error f [] = None"
| "first_error f (x # xs) = (case f x of Some e \<Rightarrow> Some e | None \<Rightarrow> first_error f xs)"

text \<open>
  \<open>Plugins.Routes\<close> is a Go map; the order in which its entries are visited (and so
  which of several errors is returned) is not fixed.  The model visits them in the order
  of the association list.
\<close>

definition validatePluginsConfig :: "PluginsConfig \<Rightarrow> error option" where
  "validatePluginsConfig c =
     (case first_error validatePluginConfig (Available c) of
        Some e \<Rightarrow> Some e
      | None \<Rightarrow> first_error (\<lambda>(routeName, ps). first_error validatePluginConfig ps) (pl_Routes c))"

definition validateRouteConfig :: "(string \<Rightarrow> bool) \<Rightarrow> RouteConfig \<Rightarrow> error option" where
  "validateRouteConfig url_ok c =
     (if rc_Name c = [] then Some (ErrOther ''empty route name'')
      else if cm_Priority (rc_Match c) < 0 then Some (ErrOther ''invalid route priority'')
      else if cm_Path (rc_Match c) = [] then Some (ErrOther ''empty route path'')
      else if URL (rc_Target c) = [] then Some (ErrOther ''empty target url'')
      else if \<not> url_ok (URL (rc_Target c)) then Some (ErrOther ''invalid target url'')
      else None)"

definition validateRoutesConfig :: "(string \<Rightarrow> bool) \<Rightarrow> RouteConfig list \<Rightarrow> error option" where
  "validateRoutesConfig url_ok rs =
     (if length rs = 0 then Some (ErrOther ''no routes'')
      else first_error (validateRouteConfig url_ok) rs)"

definition ValidateConfig :: "(string \<Rightarrow> bool) \<Rightarrow> Config \<Rightarrow> error option" where
  "ValidateConfig url_ok c =
     (case validateServerConfig (Server c) of
        Some e \<Rightarrow> Some e
      | None \<Rightarrow>
          (case validateLogConfig (Log c) of
             Some e \<Rightarrow> Some e
           | None \<Rightarrow>
               (case validatePluginsConfig (Plugins c) of
                  Some e \<Rightarrow> Some e
                | None \<Rightarrow> validateRoutesConfig url_ok (Routes c))))"

text \<open>
  What reading the configuration file and decoding it into a \<open>Config\<close> gives at one
  moment (viper and mapstructure do this): the file cannot be read or parsed, its
  content does not fit the schema, or a \<open>Config\<close> value.
\<close>

datatype file_result = ReadError | DecodeError | Decoded Config

text \<open>
  The configuration manager: the active snapshot and the reload hooks.  A hook works on
  the rest of the process (router, plugin manager, HTTP server), whose state is \<open>'w\<close>.
\<close>

record 'w ConfigManager =
  currentConfig :: "Config option"
  reloadHooks :: "(Config \<Rightarrow> 'w \<Rightarrow> error option \<times> 'w) list"

definition TestConfig :: "(string \<Rightarrow> bool) \<Rightarrow> file_result \<Rightarrow> error option" where
  "TestConfig url_ok f =
     (case f of
        ReadError \<Rightarrow> Some (ErrOther ''read config failed'')
      | DecodeError \<Rightarrow> Some (ErrOther ''decode config failed'')
      | Decoded cfg \<Rightarrow> ValidateConfig url_ok cfg)"

definition LoadConfig ::
  "(string \<Rightarrow> bool) \<Rightarrow> file_result \<Rightarrow> 'w ConfigManager \<Rightarrow> error option \<times> 'w ConfigManager" where
  "LoadConfig url_ok f cm =
     (case f of
        ReadError \<Rightarrow> (Some (ErrOther ''read config failed''), cm)
      | DecodeError \<Rightarrow> (Some (ErrOther ''decode config failed''), cm)
      | Decoded cfg \<Rightarrow>
          (case ValidateConfig url_ok cfg of
             Some e \<Rightarrow> (Some e, cm)
           | None \<Rightarrow> (None, cm\<lparr>currentConfig := Some cfg\<rparr>)))"

fun run_hooks :: "(Config \<Rightarrow> 'w \<Rightarrow> error option \<times> 'w) list \<Rightarrow> Config \<Rightarrow> 'w \<Rightarrow> error option \<times> 'w" where
  "run_hooks [] cfg w = (None, w)"
| "run_hooks (hook # hooks) cfg w =
     (case hook cfg w of
        (Some e, w') \<Rightarrow> (Some e, w')
      | (None, w') \<Rightarrow> run_hooks hooks cfg w')"

text \<open>
  \<open>ReloadConfig\<close> reads the file twice, in \<open>TestConfig\<close> and in \<open>LoadConfig\<close>;
  \<open>f1\<close> and \<open>f2\<close> are what the two reads give.
\<close>

definition ReloadConfig ::
  "(string \<Rightarrow> bool) \<Rightarrow> file_result \<Rightarrow> file_result \<Rightarrow> 'w ConfigManager \<Rightarrow> 'w
     \<Rightarrow> error option \<times> 'w ConfigManager \<times> 'w" where
  "ReloadConfig url_ok f1 f2 cm w =
     (case TestConfig url_ok f1 of
        Some e \<Rightarrow> (Some e, cm, w)
      | None \<Rightarrow>
          (case LoadConfig url_ok f2 cm of
             (Some e, cm') \<Rightarrow> (Some e, cm', w)
           | (None, cm') \<Rightarrow>
               (case currentConfig cm' of
                  None \<Rightarrow> (None, cm', w)
                | Some cfg \<Rightarrow>
                    (case run_hooks (reloadHooks cm') cfg w of (e, w') \<Rightarrow> (e, cm', w')))))"

text \<open>A file whose configuration is invalid: unreadable, off the schema, or not valid.\<close>

definition invalid_file :: "(string \<Rightarrow> bool) \<Rightarrow> file_result \<Rightarrow> bool" where
  "invalid_file url_ok f = (TestConfig url_ok f \<noteq> None)"

definition ex_config :: Config where
  "ex_config =
     \<lparr>Server = \<lparr>Port = 8080, Mode = ''release'', ReadTimeout = 5 * Second,
                  WriteTimeout = 5 * Second, MaxHeaderBytes = 1048576,
                  GracefulShutdownTimeout = 30 * Second\<rparr>,
       Log = \<lparr>Level = ''info'', Format = ''json'', Output = ''stdout'', MaxSize = 100,
               MaxAge = 7, MaxBackups = 3, Compress = False\<rparr>,
       Plugins = \<lparr>Available = [], pl_Routes = []\<rparr>,
       Routes = [ex_health_route]\<rparr>"

definition ex_manager :: "unit ConfigManager" where
  "ex_manager = \<lparr>currentConfig = Some ex_config, reloadHooks = []\<rparr>"


section \<open>Route index (internal/router): trie, cache and priority scan\<close>


































chapter \<open>Properties\<close>

section \<open>CORS: a configuration without an origin list allows every non-empty origin\<close>

lemma getAllowedOrigins_default:
  "no_origins_list cfg \<Longrightarrow> getAllowedOrigins cfg = Some [''*'']"
  by (auto simp: no_origins_list_def getAllowedOrigins_def split: option.splits cfgval.splits)

lemma isOriginAllowed_default:
  "no_origins_list cfg \<Longrightarrow> isOriginAllowed cfg origin = Some (origin \<noteq> [])"
  by (simp add: isOriginAllowed_def getAllowedOrigins_default)

lemma star_cfg_other:
  "getAllowedMethods (star_cfg cfg) = getAllowedMethods cfg"
  "getAllowedHeaders (star_cfg cfg) = getAllowedHeaders cfg"
  "getExposedHeaders (star_cfg cfg) = getExposedHeaders cfg"
  "getMaxAge (star_cfg cfg) = getMaxAge cfg"
  by (simp_all add: star_cfg_def getAllowedMethods_def getAllowedHeaders_def
      getExposedHeaders_def getMaxAge_def)

lemma star_cfg_allowed: "isOriginAllowed (star_cfg cfg) origin = Some (origin \<noteq> [])"
  by (simp add: star_cfg_def isOriginAllowed_def getAllowedOrigins_def)

text \<open>
  C9.  Let the configuration have no \<open>allowed_origins\<close> list (and let the other
  header options, if present, be lists of strings, so that no type assertion panics).
  Then the plugin behaves exactly as with \<open>allowed_origins = ["*"]\<close>; an origin is allowed
  iff it is non-empty; an OPTIONS request with an Origin is answered 200 with the five
  CORS headers and aborted; an OPTIONS request without Origin is answered 403 and
  aborted; any other request continues, with \<open>Access-Control-Allow-Origin\<close> and
  \<open>Access-Control-Expose-Headers\<close> set iff it carries an Origin.
\<close>

theorem C9_cors_without_origin_list:
  assumes "no_origins_list cfg"
    and "getAllowedMethods cfg = Some ms"
    and "getAllowedHeaders cfg = Some hs"
    and "getExposedHeaders cfg = Some es"
  shows "cors_Execute (star_cfg cfg) ctx = cors_Execute cfg ctx
    \<and> isOriginAllowed cfg (GetHeader ctx ''Origin'') = Some (GetHeader ctx ''Origin'' \<noteq> [])
    \<and> cors_Execute cfg ctx =
        (if req_Method (request ctx) = ''OPTIONS'' then
           (if GetHeader ctx ''Origin'' = [] then Some (ctx_Abort (ctx_Status 403 ctx))
            else Some (ctx_Abort (ctx_Status 200
                 (ctx_Header ''Access-Control-Max-Age'' (getMaxAge cfg)
                 (ctx_Header ''Access-Control-Expose-Headers'' es
                 (ctx_Header ''Access-Control-Allow-Headers'' hs
                 (ctx_Header ''Access-Control-Allow-Methods'' ms
                 (ctx_Header ''Access-Control-Allow-Origin'' (GetHeader ctx ''Origin'') ctx))))))))
         else
           (if GetHeader ctx ''Origin'' = [] then Some ctx
            else Some (ctx_Header ''Access-Control-Expose-Headers'' es
                 (ctx_Header ''Access-Control-Allow-Origin'' (GetHeader ctx ''Origin'') ctx))))"
  using assms
  by (simp add: isOriginAllowed_default cors_Execute_def handlePreflight_def
      handleActualRequest_def star_cfg_other star_cfg_allowed Let_def)

theorem C9_cors_without_origin_list_witness:
  "no_origins_list Map.empty
   \<and> getAllowedMethods Map.empty = Some ''GET, POST, PUT, DELETE, OPTIONS''
   \<and> getAllowedHeaders Map.empty = Some ''*''
   \<and> getExposedHeaders Map.empty = Some ''Content-Length''
   \<and> isOriginAllowed Map.empty ''http://a.example'' = Some True
   \<and> map_option written
        (cors_Execute Map.empty (ex_ctx (ex_request ''OPTIONS'' ''/api'' ex_origin_hdr))) =
       Some [SetHeader ''Access-Control-Allow-Origin'' ''http://a.example'',
             SetHeader ''Access-Control-Allow-Methods'' ''GET, POST, PUT, DELETE, OPTIONS'',
             SetHeader ''Access-Control-Allow-Headers'' ''*'',
             SetHeader ''Access-Control-Expose-Headers'' ''Content-Length'',
             SetHeader ''Access-Control-Max-Age'' ''43200'',
             WriteStatus 200]
   \<and> map_option written
        (cors_Execute Map.empty (ex_ctx (ex_request ''OPTIONS'' ''/api'' (\<lambda>k. [])))) =
       Some [WriteStatus 403]"
  using C9_cors_without_origin_list [of Map.empty "''GET, POST, PUT, DELETE, OPTIONS''" "''*''"
      "''Content-Length''" "ex_ctx (ex_request ''OPTIONS'' ''/api'' ex_origin_hdr)"]
    C9_cors_without_origin_list [of Map.empty "''GET, POST, PUT, DELETE, OPTIONS''" "''*''"
      "''Content-Length''" "ex_ctx (ex_request ''OPTIONS'' ''/api'' (\<lambda>k. []))"]
  by (simp add: no_origins_list_def getAllowedMethods_def getAllowedHeaders_def
      getExposedHeaders_def getMaxAge_def ex_ctx_def ex_request_def ex_origin_hdr_def
      GetHeader_def ctx_Abort_def ctx_Status_def ctx_Header_def)

section \<open>Evaluation rules for the concrete examples\<close>

lemmas ctx_defs = ctx_Set_def ctx_Abort_def ctx_JSON_def ctx_String_def ctx_Header_def
  ctx_Status_def GetHeader_def GetString_def

lemmas cors_defs = cors_Execute_def handleActualRequest_def handlePreflight_def
  isOriginAllowed_def getAllowedOrigins_def getAllowedMethods_def getAllowedHeaders_def
  getExposedHeaders_def getMaxAge_def

lemmas rl_defs = rl_Execute_def rl_request_def getBucket_def newBucket_def allow_def
  getLimitKey_def cleanupBuckets_def int64_of_float_def Second_def Minute_def

lemmas disp_defs = handle_request_def Manager_Execute_def Chain_Execute_def matchRoute_def
  HasPrefix_def TrimPrefix_def cache_Get_def cache_Set_def proxyPath_def internal_response_def

lemmas ex_defs = ex_api_ctx_def ex_limiter1_def ex_api_chains_def ex_api_route_def
  cors_plugin_def rate_limit_plugin_def ex_ctx_def ex_request_def ex_origin_hdr_def
  ex_internal_route_def ex_health_route_def no_chains_def


section \<open>Dispatcher: internal routes\<close>

text \<open>
  C3, as stated, at a route with target \<open>internal://default\<close>, no plugins and no
  configured response: the body written is "gateway-go running", not
  "gateway-go is running".
\<close>

theorem C3_default_body_counterexample:
  "written (h_ctx (handle_request (\<lambda>u. True) [ex_internal_route] no_chains
                     (ex_ctx (ex_request ''GET'' ''/'' (\<lambda>k. []))) () ()))
     = [WriteString 200 ''gateway-go running'']
   \<and> WriteString 200 ''gateway-go is running''
       \<notin> set (written (h_ctx (handle_request (\<lambda>u. True) [ex_internal_route] no_chains
                     (ex_ctx (ex_request ''GET'' ''/'' (\<lambda>k. []))) () ())))"
  by (simp add: ex_defs disp_defs ctx_defs)

text \<open>
  C3, amended.  For every matched route whose target URL begins with \<open>internal://\<close> the
  dispatcher never calls the reverse proxy.  When the route's plugin chain returned no
  error and did not abort the request, the dispatcher then writes the route's configured
  response: the \<open>Content-Type\<close> header (the configured content type, \<open>text/plain\<close> when it
  is empty) followed by the configured status and content; if the route has no response
  configured it writes status 200 with body "gateway-go running".  It then aborts the
  context.
\<close>

theorem C3_internal_route_response:
  assumes "find (\<lambda>route. matchRoute (req_Path (request ctx)) (rc_Match route)) routes = Some r"
    and "HasPrefix (URL (rc_Target r)) ''internal://''"
    and "Manager_Execute routeChains (ctx_Set ''target'' (URL (rc_Target r)) ctx) (rc_Name r) s cst
           = (err, ctx', s', cst', tr)"
  shows "h_upstream (handle_request url_ok routes routeChains ctx s cst) = None
    \<and> (err = None \<and> \<not> aborted ctx' \<longrightarrow>
         aborted (h_ctx (handle_request url_ok routes routeChains ctx s cst))
         \<and> written (h_ctx (handle_request url_ok routes routeChains ctx s cst)) =
             written ctx' @
             (case rc_Response r of
                Some resp \<Rightarrow>
                  [SetHeader ''Content-Type''
                     (if ContentType resp \<noteq> [] then ContentType resp else ''text/plain''),
                   WriteString (Status resp) (Content resp)]
              | None \<Rightarrow> [WriteString 200 ''gateway-go running'']))"
proof (cases err)
  case None
  with assms show ?thesis
    by (auto simp: handle_request_def internal_response_def ctx_defs split: option.splits)
next
  case (Some e)
  with assms show ?thesis
    by (simp add: handle_request_def)
qed

theorem C3_internal_route_response_witness:
  "find (\<lambda>route. matchRoute (req_Path (request (ex_ctx (ex_request ''GET'' ''/health'' (\<lambda>k. [])))))
           (rc_Match route)) [ex_health_route, ex_internal_route] = Some ex_health_route
   \<and> HasPrefix (URL (rc_Target ex_health_route)) ''internal://''
   \<and> h_upstream (handle_request (\<lambda>u. True) [ex_health_route, ex_internal_route] no_chains
                    (ex_ctx (ex_request ''GET'' ''/health'' (\<lambda>k. []))) () ()) = None
   \<and> written (h_ctx (handle_request (\<lambda>u. True) [ex_health_route, ex_internal_route] no_chains
                    (ex_ctx (ex_request ''GET'' ''/health'' (\<lambda>k. []))) () ()))
       = [SetHeader ''Content-Type'' ''text/plain'', WriteString 200 ''ok'']"
proof -
  let ?ctx = "ex_ctx (ex_request ''GET'' ''/health'' (\<lambda>k. []))"
  let ?routes = "[ex_health_route, ex_internal_route]"
  have f: "find (\<lambda>route. matchRoute (req_Path (request ?ctx)) (rc_Match route)) ?routes
             = Some ex_health_route"
    by (simp add: ex_defs disp_defs)
  have p: "HasPrefix (URL (rc_Target ex_health_route)) ''internal://''"
    by (simp add: ex_defs disp_defs)
  have m: "Manager_Execute no_chains (ctx_Set ''target'' (URL (rc_Target ex_health_route)) ?ctx)
             (rc_Name ex_health_route) () ()
           = (None, ctx_Set ''target'' (URL (rc_Target ex_health_route)) ?ctx, (), (), [])"
    by (simp add: ex_defs disp_defs)
  from C3_internal_route_response [OF f p m, of "\<lambda>u. True"] f p
  show ?thesis
    by (simp add: ex_defs ctx_defs)
qed


section \<open>Rate limiter: the janitor and the one-second bound\<close>

text \<open>
  C5 at a concrete history.  The limiter has \<open>requests_per_second = 0.0\<close> and
  \<open>burst = 2\<close>.  The key is first used at time 0 and again 300.2 s later; the janitor runs
  at 300.5 s and deletes the bucket, because it compares the clock with \<open>lastRefill\<close>,
  which a request only updates when it adds tokens; two more requests follow at 300.6 s
  and 300.7 s.  All four requests are admitted, three of them within the one-second
  window starting at 300.2 s, while rate + burst is 2.
\<close>

theorem C5_janitor_resets_bucket_in_use:
  "admitted ''/api'' ex_history ex_limiter = [0, 300200000000, 300600000000, 300700000000]
   \<and> in_window 300200000000 (admitted ''/api'' ex_history ex_limiter) = 3
   \<and> real (in_window 300200000000 (admitted ''/api'' ex_history ex_limiter))
       > rate (newBucket (rl_config ex_limiter) 0)
         + real_of_int (capacity (newBucket (rl_config ex_limiter) 0))"
  by (simp add: ex_history_def ex_limiter_def in_window_def rl_defs Let_def)

lemmas ia_defs = ia_Execute_def callAuthService_def isWhiteListed_def
  getTokenFromAuthorizationHeader_def authURL_def first_read_def ErrorResponse_def
  ErrTokenMissingOrInvalid_def ErrForbiddenAccessDenied_def ErrAuthServiceCallFailed_def
  ErrNoResponseBody_def ErrUnknownResponseType_def interface_auth_plugin_def
  TrimSpace_def space_width_def space_encodings_def

lemmas ex_auth_defs = ex_auth_def ex_bearer_hdr_def ex_other_ctx_def ex_auth_route_def
  ex_auth_chains_def ex_no_token_ctx_def executed_of_def


section \<open>Interface auth: the outcome for each answer of the auth service\<close>

lemma TrimSpace_Nil: "TrimSpace [] = []"
  by (simp add: TrimSpace_def space_width_def space_encodings_def HasPrefix_def)

text \<open>
  C6, as stated, fails for an unknown body and for a non-200 status.  With the body
  "maybe" the plugin answers 401 (\<open>ErrUnknownResponseType\<close>), and 401 is also the status
  the client gets after the dispatcher has handled the plugin's error; with status 404
  from the auth service the plugin answers 404.
\<close>

theorem C6_unknown_body_counterexample:
  "ia_Execute (\<lambda>regex pth. False) (\<lambda>u. Response 200 ''maybe'' 5) ex_auth ex_other_ctx
     = (Some (ErrAuthUnknown ''maybe''),
        ctx_Abort (ctx_JSON 401 ErrUnknownResponseType ex_other_ctx))
   \<and> status_sent 200 (written (h_ctx (handle_request (\<lambda>u. True) [ex_auth_route]
         (ex_auth_chains (\<lambda>u. Response 200 ''maybe'' 5)) ex_other_ctx () ()))) = 401
   \<and> ia_Execute (\<lambda>regex pth. False) (\<lambda>u. Response 404 ''false'' 5) ex_auth ex_other_ctx
     = (Some (ErrAuthStatus 404),
        ctx_Abort (ctx_JSON 404 (ErrorResponse 404 ''Unauthorized: Invalid response'')
                     ex_other_ctx))"
  by (simp add: ia_defs ex_auth_defs ex_defs ctx_defs disp_defs Let_def)

text \<open>
  C6, amended.  For every non-white-listed request that carries a bearer token, the auth
  service's response determines the outcome.  With status 200: a trimmed body (of the
  first read) equal to "false" passes the request and publishes
  \<open>plugin_result_interface_auth = success\<close>; equal to "true" rejects with 403; an empty
  body yields a 500 error response; any other body yields 401 (unknown response type).
  A response status other than 200 is passed on as the status of the error response.
\<close>

theorem C6_auth_service_outcome:
  assumes "\<not> isWhiteListed M p (req_Path (request ctx))"
    and "getTokenFromAuthorizationHeader ctx = token" and "token \<noteq> []"
    and "http (authURL p token) = Response st body n"
  shows "(st = 200 \<and> TrimSpace (first_read body n) = ''false'' \<longrightarrow>
            ia_Execute M http p ctx
              = (None, ctx_Set ''plugin_result_interface_auth'' ''success'' ctx))
    \<and> (st = 200 \<and> TrimSpace (first_read body n) = ''true'' \<longrightarrow>
            ia_Execute M http p ctx
              = (Some ErrAuthDenied, ctx_Abort (ctx_JSON 403 ErrForbiddenAccessDenied ctx)))
    \<and> (st = 200 \<and> first_read body n = [] \<longrightarrow>
            ia_Execute M http p ctx
              = (Some ErrAuthEmptyBody, ctx_Abort (ctx_JSON 500 ErrNoResponseBody ctx)))
    \<and> (st = 200 \<and> first_read body n \<noteq> [] \<and> TrimSpace (first_read body n) \<noteq> ''true''
          \<and> TrimSpace (first_read body n) \<noteq> ''false'' \<longrightarrow>
            ia_Execute M http p ctx
              = (Some (ErrAuthUnknown (TrimSpace (first_read body n))),
                 ctx_Abort (ctx_JSON 401 ErrUnknownResponseType ctx)))
    \<and> (st \<noteq> 200 \<longrightarrow>
            ia_Execute M http p ctx
              = (Some (ErrAuthStatus st),
                 ctx_Abort (ctx_JSON st (ErrorResponse st ''Unauthorized: Invalid response'')
                              ctx)))"
  using assms TrimSpace_Nil
  by (auto simp: ia_Execute_def callAuthService_def Let_def)

theorem C6_auth_service_outcome_witness:
  "\<not> isWhiteListed (\<lambda>regex pth. False) ex_auth (req_Path (request ex_other_ctx))
   \<and> getTokenFromAuthorizationHeader ex_other_ctx = ''T''
   \<and> TrimSpace (first_read ('' false'' @ [CHR 0x0A]) 7) = ''false''
   \<and> ia_Execute (\<lambda>regex pth. False)
        (\<lambda>u. if u = ''http://auth.example:8080/unauthorized/T''
              then Response 200 ('' false'' @ [CHR 0x0A]) 7 else DoError)
        ex_auth ex_other_ctx
       = (None, ctx_Set ''plugin_result_interface_auth'' ''success'' ex_other_ctx)"
proof -
  let ?http = "\<lambda>u. if u = ''http://auth.example:8080/unauthorized/T''
                    then Response 200 ('' false'' @ [CHR 0x0A]) 7 else DoError"
  have w: "\<not> isWhiteListed (\<lambda>regex pth. False) ex_auth (req_Path (request ex_other_ctx))"
    by (simp add: ia_defs ex_auth_defs ex_defs)
  have t: "getTokenFromAuthorizationHeader ex_other_ctx = ''T''"
    by (simp add: ia_defs ex_auth_defs ex_defs ctx_defs disp_defs)
  have h: "?http (authURL ex_auth ''T'') = Response 200 ('' false'' @ [CHR 0x0A]) 7"
    by (simp add: ia_defs ex_auth_defs)
  have tr: "TrimSpace (first_read ('' false'' @ [CHR 0x0A]) 7) = ''false''"
    by (simp add: ia_defs disp_defs)
  from C6_auth_service_outcome [where M = "\<lambda>regex pth. False" and p = ex_auth
         and ctx = ex_other_ctx and token = "''T''" and http = ?http and st = 200
         and body = "'' false'' @ [CHR 0x0A]" and n = 7] tr w t h
  show ?thesis
    by simp
qed


section \<open>Interface auth: the decision is taken from the first read\<close>

text \<open>
  C10, as stated, fails when the first read returns no bytes: "" is neither "true" nor
  "false", yet the response is classified as an empty body (500), not as an unknown
  response.
\<close>

theorem C10_empty_read_counterexample:
  "TrimSpace (first_read [] 0) \<noteq> ''true'' \<and> TrimSpace (first_read [] 0) \<noteq> ''false''
   \<and> callAuthService (\<lambda>u. Response 200 [] 0) ex_auth ex_other_ctx ''T''
       = (Some ErrAuthEmptyBody, ctx_Abort (ctx_JSON 500 ErrNoResponseBody ex_other_ctx))"
  by (simp add: ia_defs disp_defs)

text \<open>
  C10, amended.  The plugin reads the auth service's body with a single read into a
  1024-byte buffer: the bytes it decides on are at most 1024, and two 200 responses whose
  first reads return the same bytes get the same decision, whatever the rest of their
  bodies.  A first read that returns no bytes is classified as an empty response body;
  a non-empty first read that, trimmed, is neither "true" nor "false" is classified as an
  unknown response.
\<close>

theorem C10_decision_from_first_read:
  "length (first_read body n) \<le> 1024
   \<and> (http (authURL p token) = Response 200 body n
        \<and> http' (authURL p token) = Response 200 body' n'
        \<and> first_read body n = first_read body' n' \<longrightarrow>
      callAuthService http p ctx token = callAuthService http' p ctx token)
   \<and> (http (authURL p token) = Response 200 body n \<and> first_read body n = [] \<longrightarrow>
      callAuthService http p ctx token
        = (Some ErrAuthEmptyBody, ctx_Abort (ctx_JSON 500 ErrNoResponseBody ctx)))
   \<and> (http (authURL p token) = Response 200 body n \<and> first_read body n \<noteq> []
        \<and> TrimSpace (first_read body n) \<noteq> ''true''
        \<and> TrimSpace (first_read body n) \<noteq> ''false'' \<longrightarrow>
      callAuthService http p ctx token
        = (Some (ErrAuthUnknown (TrimSpace (first_read body n))),
           ctx_Abort (ctx_JSON 401 ErrUnknownResponseType ctx)))"
  by (auto simp: callAuthService_def first_read_def Let_def)

text \<open>
  The witness: the whole body is "false", but the transport hands out three bytes at the
  first read, so the plugin sees "fal" and reports an unknown response; a body of "true"
  followed by other bytes delivered in two reads is decided exactly as "true".
\<close>

theorem C10_decision_from_first_read_witness:
  "first_read ''false'' 3 = ''fal''
   \<and> callAuthService (\<lambda>u. Response 200 ''false'' 3) ex_auth ex_other_ctx ''T''
       = (Some (ErrAuthUnknown ''fal''),
          ctx_Abort (ctx_JSON 401 ErrUnknownResponseType ex_other_ctx))
   \<and> callAuthService (\<lambda>u. Response 200 ''true and more'' 4) ex_auth ex_other_ctx ''T''
       = callAuthService (\<lambda>u. Response 200 ''true'' 4) ex_auth ex_other_ctx ''T''"
proof -
  have a: "first_read ''false'' 3 = ''fal''"
    by (simp add: first_read_def)
  have b: "TrimSpace ''fal'' \<noteq> ''true'' \<and> TrimSpace ''fal'' \<noteq> ''false'' \<and> TrimSpace ''fal'' = ''fal''"
    by (simp add: ia_defs disp_defs)
  have c: "first_read ''true and more'' 4 = first_read ''true'' 4"
    by (simp add: first_read_def)
  from C10_decision_from_first_read [of "''false''" 3 "\<lambda>u. Response 200 ''false'' 3" ex_auth "''T''"
         "\<lambda>u. Response 200 ''false'' 3" "''false''" 3 ex_other_ctx]
       C10_decision_from_first_read [of "''true and more''" 4 "\<lambda>u. Response 200 ''true and more'' 4"
         ex_auth "''T''" "\<lambda>u. Response 200 ''true'' 4" "''true''" 4 ex_other_ctx]
       a b c
  show ?thesis by simp
qed


section \<open>Plugin chain: what stops a chain and what stops the proxy\<close>

lemma run_plugins_append:
  "run_plugins ch gk (ps1 @ ps2) ctx s cst tr =
     (case run_plugins ch gk ps1 ctx s cst tr of
        (Some e, r) \<Rightarrow> (Some e, r)
      | (None, ctx', s', cst', tr') \<Rightarrow> run_plugins ch gk ps2 ctx' s' cst' tr')"
  by (induction ps1 arbitrary: ctx s cst tr) (auto split: option.splits prod.splits)

lemma run_plugins_trace:
  "run_plugins ch gk ps ctx s cst tr = (err, ctx', s', cst', tr')
     \<Longrightarrow> \<exists>xs. tr' = tr @ xs \<and> set xs \<subseteq> Name ` set ps"
proof (induction ps arbitrary: ctx s cst tr)
  case Nil
  then show ?case by simp
next
  case (Cons p ps)
  show ?case
  proof (cases "cache_Get ch gk ctx (Name p) cst")
    case (Some dataMap)
    with Cons.prems Cons.IH show ?thesis by fastforce
  next
    case None
    obtain e c1 s1 where ex: "Execute p s ctx = (e, c1, s1)"
      by (cases "Execute p s ctx")
    show ?thesis
    proof (cases e)
      case (Some a)
      with None ex Cons.prems show ?thesis by auto
    next
      case n2: None
      with None ex Cons.prems
      have "run_plugins ch gk ps c1 s1 (cache_Set ch gk ctx c1 (Name p) cst) (tr @ [Name p])
              = (err, ctx', s', cst', tr')"
        by simp
      from Cons.IH [OF this] show ?thesis by auto
    qed
  qed
qed

lemma first_api_request:
  "h_state (handle_request (\<lambda>u. True) [ex_api_route] (ex_api_chains 0) ex_api_ctx ex_limiter1 ())
     = \<lparr>rl_config = [''requests_per_second'' \<mapsto> CFloat 1, ''burst'' \<mapsto> CInt 1],
         buckets = [''/api/x'' \<mapsto> \<lparr>rate = 1, capacity = 1, tokens = 0, lastRefill = 0\<rparr>]\<rparr>"
  by (simp add: ex_defs rl_defs ctx_defs cors_defs disp_defs Let_def)

text \<open>
  C2, as stated, at the route \<open>/api\<close> with the chain rate_limit, cors and two requests in a
  row from one client.  The rate limiter denies the second request: it writes the 429
  response, aborts the context and returns nil.  The chain goes on: the CORS plugin is
  executed and sets its headers.  (The proxy is not called.)
\<close>

theorem C2_later_plugin_runs_counterexample:
  "h_executed ex_second_request = [''rate_limit'', ''cors'']
   \<and> written (h_ctx ex_second_request)
       = [WriteJSON 429 [(''error'', JStr ''too many requests'')],
          SetHeader ''Access-Control-Allow-Origin'' ''http://a.example'',
          SetHeader ''Access-Control-Expose-Headers'' ''Content-Length'']
   \<and> h_upstream ex_second_request = None"
  unfolding ex_second_request_def first_api_request
  by (simp add: ex_defs rl_defs ctx_defs cors_defs disp_defs Let_def)

text \<open>
  C2, amended.  When a plugin of a chain returns an error, no plugin later in the chain
  executes: the chain with further plugins appended gives exactly the result (error,
  context, plugin state, cache and executed plugins) of the chain that ends there, and
  only plugins up to that point were executed.  When the chain of the matched route
  returns an error or leaves the context aborted, the upstream proxy is not invoked and
  the request is not passed on.  (A plugin that writes the response and aborts but returns
  nil does not stop the plugins after it.)
\<close>

theorem C2_error_stops_chain_abort_stops_proxy:
  "(fst (Chain_Execute \<lparr>plugins = ps, cache = ch, genKey = gk\<rparr> ctx s cst) \<noteq> None \<longrightarrow>
      Chain_Execute \<lparr>plugins = ps @ qs, cache = ch, genKey = gk\<rparr> ctx s cst
        = Chain_Execute \<lparr>plugins = ps, cache = ch, genKey = gk\<rparr> ctx s cst
      \<and> set (executed_of
                (Chain_Execute \<lparr>plugins = ps @ qs, cache = ch, genKey = gk\<rparr> ctx s cst))
          \<subseteq> Name ` set ps)
   \<and> (find (\<lambda>route. matchRoute (req_Path (request ctx)) (rc_Match route)) routes = Some r
      \<and> Manager_Execute routeChains (ctx_Set ''target'' (URL (rc_Target r)) ctx) (rc_Name r) s cst
           = (err, ctx', s', cst', tr)
      \<and> (err \<noteq> None \<or> aborted ctx') \<longrightarrow>
        h_upstream (handle_request url_ok routes routeChains ctx s cst) = None
        \<and> \<not> h_next (handle_request url_ok routes routeChains ctx s cst)
        \<and> h_executed (handle_request url_ok routes routeChains ctx s cst) = tr)"
proof (intro conjI impI)
  assume a: "fst (Chain_Execute \<lparr>plugins = ps, cache = ch, genKey = gk\<rparr> ctx s cst) \<noteq> None"
  then show eq: "Chain_Execute \<lparr>plugins = ps @ qs, cache = ch, genKey = gk\<rparr> ctx s cst
        = Chain_Execute \<lparr>plugins = ps, cache = ch, genKey = gk\<rparr> ctx s cst"
    by (auto simp: Chain_Execute_def run_plugins_append split: prod.splits option.splits)
  obtain e c1 s1 cs1 t1 where r: "run_plugins ch gk ps ctx s cst [] = (e, c1, s1, cs1, t1)"
    by (cases "run_plugins ch gk ps ctx s cst []") auto
  from run_plugins_trace [OF r] have "set t1 \<subseteq> Name ` set ps"
    by auto
  with r eq
  show "set (executed_of
               (Chain_Execute \<lparr>plugins = ps @ qs, cache = ch, genKey = gk\<rparr> ctx s cst))
          \<subseteq> Name ` set ps"
    by (simp add: Chain_Execute_def executed_of_def)
next
  assume a: "find (\<lambda>route. matchRoute (req_Path (request ctx)) (rc_Match route)) routes = Some r
      \<and> Manager_Execute routeChains (ctx_Set ''target'' (URL (rc_Target r)) ctx) (rc_Name r) s cst
           = (err, ctx', s', cst', tr)
      \<and> (err \<noteq> None \<or> aborted ctx')"
  then show "h_upstream (handle_request url_ok routes routeChains ctx s cst) = None"
    by (cases err) (auto simp: handle_request_def)
  from a show "\<not> h_next (handle_request url_ok routes routeChains ctx s cst)"
    by (cases err) (auto simp: handle_request_def)
  from a show "h_executed (handle_request url_ok routes routeChains ctx s cst) = tr"
    by (cases err) (auto simp: handle_request_def)
qed

text \<open>
  The witness: a request without \<open>Authorization\<close> header through the chain
  interface_auth, cors (the auth plugin returns an error and CORS does not run), and a
  request through the dispatcher whose auth plugin fails (no proxy call).
\<close>

theorem C2_error_stops_chain_abort_stops_proxy_witness:
  "fst (Chain_Execute
          \<lparr>plugins = [interface_auth_plugin (\<lambda>regex pth. False) (\<lambda>u. DoError) ex_auth],
            cache = None, genKey = None\<rparr> ex_no_token_ctx () ()) = Some ErrTokenMissing
   \<and> executed_of (Chain_Execute
          \<lparr>plugins = [interface_auth_plugin (\<lambda>regex pth. False) (\<lambda>u. DoError) ex_auth]
                       @ [cors_plugin Map.empty],
            cache = None, genKey = None\<rparr> ex_no_token_ctx () ()) = [''interface_auth'']
   \<and> h_upstream (handle_request (\<lambda>u. True) [ex_auth_route] (ex_auth_chains (\<lambda>u. DoError))
                    ex_no_token_ctx () ()) = None
   \<and> h_executed (handle_request (\<lambda>u. True) [ex_auth_route] (ex_auth_chains (\<lambda>u. DoError))
                    ex_no_token_ctx () ()) = [''interface_auth'']"
proof -
  let ?ia = "interface_auth_plugin (\<lambda>regex pth. False) (\<lambda>u. DoError) ex_auth :: unit Plugin"
  let ?c1 = "\<lparr>plugins = [?ia], cache = None :: unit PluginCacheIface option, genKey = None\<rparr>"
  have e: "Chain_Execute ?c1 ex_no_token_ctx () ()
             = (Some ErrTokenMissing,
                ctx_Abort (ctx_JSON 401 ErrTokenMissingOrInvalid ex_no_token_ctx), (), (),
                [''interface_auth''])"
    by (simp add: ia_defs ex_auth_defs ex_defs ctx_defs disp_defs Let_def)
  have f: "find (\<lambda>route. matchRoute (req_Path (request ex_no_token_ctx)) (rc_Match route))
             [ex_auth_route] = Some ex_auth_route"
    by (simp add: ex_auth_defs ex_defs disp_defs)
  have m: "Manager_Execute (ex_auth_chains (\<lambda>u. DoError))
             (ctx_Set ''target'' (URL (rc_Target ex_auth_route)) ex_no_token_ctx)
             (rc_Name ex_auth_route) () ()
           = (Some ErrTokenMissing,
              ctx_Abort (ctx_JSON 401 ErrTokenMissingOrInvalid
                (ctx_Set ''target'' (URL (rc_Target ex_auth_route)) ex_no_token_ctx)), (), (),
              [''interface_auth''])"
    by (simp add: ia_defs ex_auth_defs ex_defs ctx_defs disp_defs Let_def)
  from C2_error_stops_chain_abort_stops_proxy
         [where ps = "[?ia]" and qs = "[cors_plugin Map.empty]" and ch = None and gk = None
            and ctx = ex_no_token_ctx and s = "()" and cst = "()" and routes = "[ex_auth_route]"
            and r = ex_auth_route and routeChains = "ex_auth_chains (\<lambda>u. DoError)"
            and err = "Some ErrTokenMissing"
            and ctx' = "ctx_Abort (ctx_JSON 401 ErrTokenMissingOrInvalid
                (ctx_Set ''target'' (URL (rc_Target ex_auth_route)) ex_no_token_ctx))"
            and s' = "()" and cst' = "()" and tr = "[''interface_auth'']"
            and url_ok = "\<lambda>u. True"]
       e f m
  show ?thesis
    by (simp add: executed_of_def)
qed




section \<open>Circuit breaker: admission by state\<close>









section \<open>Consistency plugin: the timestamp window\<close>


















lemmas cfg_defs = ValidateConfig_def validateServerConfig_def validateLogConfig_def
  validatePluginsConfig_def validatePluginConfig_def validateRoutesConfig_def
  validateRouteConfig_def TestConfig_def LoadConfig_def ReloadConfig_def invalid_file_def
  ex_config_def ex_manager_def


section \<open>Configuration reload: an invalid file leaves the snapshot alone\<close>

lemma first_error_bad:
  "x \<in> set xs \<Longrightarrow> f x \<noteq> None \<Longrightarrow> first_error f xs \<noteq> None"
  by (induction xs) (auto split: option.splits)

lemma ValidateConfig_catches:
  "Port (Server c) \<le> 0 \<or> Port (Server c) > 65535
     \<or> (Mode (Server c) \<noteq> ''debug'' \<and> Mode (Server c) \<noteq> ''release'')
     \<or> (\<exists>r \<in> set (Routes c). \<not> url_ok (URL (rc_Target r)))
   \<Longrightarrow> ValidateConfig url_ok c \<noteq> None"
proof -
  assume a: "Port (Server c) \<le> 0 \<or> Port (Server c) > 65535
     \<or> (Mode (Server c) \<noteq> ''debug'' \<and> Mode (Server c) \<noteq> ''release'')
     \<or> (\<exists>r \<in> set (Routes c). \<not> url_ok (URL (rc_Target r)))"
  show ?thesis
  proof (cases "validateServerConfig (Server c) = None")
    case False
    then show ?thesis by (auto simp: ValidateConfig_def)
  next
    case True
    with a obtain r where r: "r \<in> set (Routes c)" "\<not> url_ok (URL (rc_Target r))"
      by (auto simp: validateServerConfig_def split: if_splits)
    then have "validateRouteConfig url_ok r \<noteq> None"
      by (simp add: validateRouteConfig_def)
    from first_error_bad [where f = "validateRouteConfig url_ok", OF r(1) this] r(1)
    have "validateRoutesConfig url_ok (Routes c) \<noteq> None"
      by (auto simp: validateRoutesConfig_def)
    then show ?thesis
      by (auto simp: ValidateConfig_def split: option.splits)
  qed
qed

text \<open>
  C7.  A reload reads the file in \<open>TestConfig\<close> and again in \<open>LoadConfig\<close>.  If what
  either read gives is invalid (the file cannot be read, does not fit the schema, or
  does not pass \<open>ValidateConfig\<close>), \<open>ReloadConfig\<close> returns an error, the active snapshot
  is the one from before, and no reload hook has run.  An invalid port, an invalid mode
  and a target URL that \<open>url.Parse\<close> rejects each make the decoded configuration invalid.
\<close>

theorem C7_invalid_reload_keeps_snapshot:
  "(invalid_file url_ok fa \<or> invalid_file url_ok fb \<longrightarrow>
      fst (ReloadConfig url_ok fa fb cm w) \<noteq> None
      \<and> currentConfig (fst (snd (ReloadConfig url_ok fa fb cm w))) = currentConfig cm
      \<and> snd (snd (ReloadConfig url_ok fa fb cm w)) = w)
   \<and> invalid_file url_ok ReadError
   \<and> invalid_file url_ok DecodeError
   \<and> (Port (Server c) \<le> 0 \<or> Port (Server c) > 65535
        \<or> (Mode (Server c) \<noteq> ''debug'' \<and> Mode (Server c) \<noteq> ''release'')
        \<or> (\<exists>r \<in> set (Routes c). \<not> url_ok (URL (rc_Target r)))
      \<longrightarrow> invalid_file url_ok (Decoded c))"
proof (intro conjI impI)
  assume a: "invalid_file url_ok fa \<or> invalid_file url_ok fb"
  show "fst (ReloadConfig url_ok fa fb cm w) \<noteq> None"
    using a
    by (cases fa; cases fb)
      (auto simp: ReloadConfig_def TestConfig_def LoadConfig_def invalid_file_def
        split: option.splits)
  show "currentConfig (fst (snd (ReloadConfig url_ok fa fb cm w))) = currentConfig cm"
    using a
    by (cases fa; cases fb)
      (auto simp: ReloadConfig_def TestConfig_def LoadConfig_def invalid_file_def
        split: option.splits)
  show "snd (snd (ReloadConfig url_ok fa fb cm w)) = w"
    using a
    by (cases fa; cases fb)
      (auto simp: ReloadConfig_def TestConfig_def LoadConfig_def invalid_file_def
        split: option.splits)
next
  show "invalid_file url_ok ReadError" "invalid_file url_ok DecodeError"
    by (simp_all add: invalid_file_def TestConfig_def)
next
  assume "Port (Server c) \<le> 0 \<or> Port (Server c) > 65535
        \<or> (Mode (Server c) \<noteq> ''debug'' \<and> Mode (Server c) \<noteq> ''release'')
        \<or> (\<exists>r \<in> set (Routes c). \<not> url_ok (URL (rc_Target r)))"
  from ValidateConfig_catches [OF this]
  show "invalid_file url_ok (Decoded c)"
    by (simp add: invalid_file_def TestConfig_def)
qed

text \<open>
  The witness: the running configuration is valid; the file now has port 70000.  The
  reload fails with the port error and the snapshot is unchanged.  (A reload with the
  valid file succeeds, so the error is not what every reload gives.)
\<close>

theorem C7_invalid_reload_keeps_snapshot_witness:
  "invalid_file (\<lambda>u. True) (Decoded (ex_config\<lparr>Server := (Server ex_config)\<lparr>Port := 70000\<rparr>\<rparr>))
   \<and> fst (ReloadConfig (\<lambda>u. True)
        (Decoded (ex_config\<lparr>Server := (Server ex_config)\<lparr>Port := 70000\<rparr>\<rparr>))
        (Decoded (ex_config\<lparr>Server := (Server ex_config)\<lparr>Port := 70000\<rparr>\<rparr>))
        ex_manager ()) = Some (ErrOther ''invalid port'')
   \<and> currentConfig (fst (snd (ReloadConfig (\<lambda>u. True)
        (Decoded (ex_config\<lparr>Server := (Server ex_config)\<lparr>Port := 70000\<rparr>\<rparr>))
        (Decoded (ex_config\<lparr>Server := (Server ex_config)\<lparr>Port := 70000\<rparr>\<rparr>))
        ex_manager ()))) = Some ex_config
   \<and> fst (ReloadConfig (\<lambda>u. True) (Decoded ex_config) (Decoded ex_config) ex_manager ()) = None"
proof -
  let ?bad = "Decoded (ex_config\<lparr>Server := (Server ex_config)\<lparr>Port := 70000\<rparr>\<rparr>)"
  have p: "Port (Server (ex_config\<lparr>Server := (Server ex_config)\<lparr>Port := 70000\<rparr>\<rparr>)) > 65535"
    by simp
  have e: "fst (ReloadConfig (\<lambda>u. True) ?bad ?bad ex_manager ()) = Some (ErrOther ''invalid port'')"
    by (simp add: cfg_defs)
  have ok: "fst (ReloadConfig (\<lambda>u. True) (Decoded ex_config) (Decoded ex_config) ex_manager ()) = None"
    by (simp add: cfg_defs ex_defs Second_def)
  from C7_invalid_reload_keeps_snapshot [where url_ok = "\<lambda>u. True" and fa = ?bad and fb = ?bad
         and cm = ex_manager and w = "()"
         and c = "ex_config\<lparr>Server := (Server ex_config)\<lparr>Port := 70000\<rparr>\<rparr>"] p e ok
  show ?thesis
    by (simp add: ex_manager_def)
qed



section \<open>Route index: which route is selected\<close>









end
